theory Spec2Isabelle
  imports Complex_Main
begin

section \<open>Text\<close>

text \<open>
  A Python \<open>str\<close> is modelled as the list of its Unicode code points, so that
  \<open>length\<close>, \<open>startswith\<close>, \<open>split\<close> and the regular expressions of the source count
  what Python counts. ASCII text is written \<open>asc ''...''\<close>; other text is given by its
  code points in hexadecimal.
\<close>

type_synonym ustr = "nat list"

abbreviation (input) asc :: "string \<Rightarrow> ustr" where
  "asc s \<equiv> map of_char s"

text \<open>The full-width parentheses U+FF08 and U+FF09, the line feed and the full stop.\<close>

abbreviation LPAREN :: nat where "LPAREN \<equiv> 0xFF08"
abbreviation RPAREN :: nat where "RPAREN \<equiv> 0xFF09"
abbreviation NEWLINE :: nat where "NEWLINE \<equiv> 0x0A"
abbreviation DOT :: nat where "DOT \<equiv> 0x2E"

text \<open>\<open>s.startswith(p)\<close>\<close>

fun startswith :: "ustr \<Rightarrow> ustr \<Rightarrow> bool" where
  "startswith s [] = True"
| "startswith [] (p # ps) = False"
| "startswith (c # cs) (p # ps) = (c = p \<and> startswith cs ps)"

text \<open>\<open>sub in s\<close> for strings: \<open>sub\<close> occurs in \<open>s\<close> as a contiguous run.\<close>

fun py_in :: "ustr \<Rightarrow> ustr \<Rightarrow> bool" where
  "py_in sub [] = (sub = [])"
| "py_in sub (c # cs) = (startswith (c # cs) sub \<or> py_in sub cs)"

text \<open>\<open>str(n)\<close> for a non-negative integer: its decimal digits.\<close>

fun py_str_nat :: "nat \<Rightarrow> ustr" where
  "py_str_nat n = (if n < 10 then [0x30 + n] else py_str_nat (n div 10) @ [0x30 + n mod 10])"

text \<open>
  \<open>s.split(sep)[0]\<close> for a one-character separator: the text before the first
  occurrence of the separator, the whole text when there is none.
\<close>

definition split_first :: "nat \<Rightarrow> ustr \<Rightarrow> ustr" where
  "split_first sep s = takeWhile (\<lambda>c. c \<noteq> sep) s"

text \<open>
  \<open>re.search(r'L(.*?)R', s)\<close>, where \<open>L\<close> and \<open>R\<close> stand here for the two full-width
  parentheses of the source's pattern. \<open>lazy_group\<close> is the lazy group \<open>(.*?)\<close> followed by
  the closing parenthesis, tried right after an opening one: it takes characters up to the first
  closing parenthesis, and fails at a line feed (which \<open>.\<close> does not match) or at the end
  of the text. \<open>re_search_paren\<close> tries every start position from the left and returns
  \<open>group(1)\<close> of the first match; \<open>None\<close> is Python's \<open>None\<close> (no match).
\<close>

fun lazy_group :: "ustr \<Rightarrow> ustr option" where
  "lazy_group [] = None"
| "lazy_group (c # cs) =
     (if c = RPAREN then Some []
      else if c = NEWLINE then None
      else map_option (Cons c) (lazy_group cs))"

fun re_search_paren :: "ustr \<Rightarrow> ustr option" where
  "re_search_paren [] = None"
| "re_search_paren (c # cs) =
     (if c = LPAREN
      then (case lazy_group cs of Some g \<Rightarrow> Some g | None \<Rightarrow> re_search_paren cs)
      else re_search_paren cs)"

section \<open>Dataset\<close>

text \<open>
  A cell of a year column, as \<open>pandas\<close> hands it to the program: an integer, a finite
  float (by its exact value), a float that is NaN or infinite, or text.
\<close>

datatype cell =
    Int_cell int
  | Float_cell rat
  | Nonfinite_cell
  | Text_cell ustr

text \<open>
  One row of the data frame \<open>df\<close>. \<open>load_data\<close> guarantees the three text columns;
  \<open>cells\<close> holds the remaining columns by name, as \<open>company_data.get(col, default)\<close>
  reads them.
\<close>

record company =
  stock_code :: ustr
  stock_name :: ustr
  listing_date :: ustr
  cells :: "(ustr \<times> cell) list"

text \<open>
  The column \<open>df[display]\<close> that \<open>load_data\<close> computes once for every row: the name,
  then the identifier in full-width parentheses.
\<close>

definition selection_key :: "company \<Rightarrow> ustr" where
  "selection_key c = stock_name c @ [LPAREN] @ stock_code c @ [RPAREN]"

text \<open>
  The module-level values \<open>years\<close>, \<open>rating_columns\<close>, \<open>quant_columns\<close> that
  \<open>load_data\<close> returns; the functions below read them and never write them.
\<close>

record config =
  years :: "nat list"
  rating_columns :: "ustr list"
  quant_columns :: "ustr list"

text \<open>The exceptions that the modelled code can raise.\<close>

datatype py_error = IndexError | ValueError | LayoutError

text \<open>
  What the program shows through \<open>streamlit\<close>, in the order of the calls: each
  constructor is one call site, with the values its message interpolates.
\<close>

datatype ui_event =
    Warning_not_found ustr
  | Error_query py_error
  | Error_pdf py_error

text \<open>
  What lies outside the program's own values: the events shown so far, and the text that
  \<open>pd.Timestamp.now().strftime('%Y-%m-%d %H:%M:%S')\<close> returns at the moment of the call.
\<close>

record world =
  events :: "ui_event list"
  now :: ustr

definition emit :: "ui_event \<Rightarrow> world \<Rightarrow> world" where
  "emit e w = w\<lparr>events := events w @ [e]\<rparr>"

section \<open>Record resolver: \<open>get_company_by_selection\<close>\<close>

text \<open>The sentinel entry of the select box.\<close>

definition NO_SELECTION :: ustr where
  "NO_SELECTION = [0x8BF7, 0x9009, 0x62E9, 0x4F01, 0x4E1A]"

text \<open>
  \<open>df.iloc[0]\<close> on a frame and on a filtered frame: the first row, \<open>IndexError\<close> when
  there is none.
\<close>

definition iloc0 :: "company list \<Rightarrow> py_error + company" where
  "iloc0 rows = (case rows of [] \<Rightarrow> Inl IndexError | r # _ \<Rightarrow> Inr r)"

text \<open>
  The rows selected before the last resort: by identifier when the selection has a
  bracketed part, by name otherwise; by selection key when that gave nothing.
\<close>

definition match_rows :: "company list \<Rightarrow> ustr \<Rightarrow> company list" where
  "match_rows df s =
     (let company_data =
            (case re_search_paren s of
               Some code \<Rightarrow> filter (\<lambda>c. stock_code c = code) df
             | None \<Rightarrow> filter (\<lambda>c. stock_name c = split_first LPAREN s) df)
      in if company_data = [] then filter (\<lambda>c. selection_key c = s) df else company_data)"

text \<open>
  The whole function. The selection is \<open>None\<close> or a string; the result is the returned
  row (\<open>None\<close> for Python's \<open>None\<close>) or the exception that leaves the function, with the
  interface events added. In the \<open>try\<close> block only \<open>company_data.iloc[0]\<close> can raise;
  the handler reports the error and returns \<open>df.iloc[0]\<close>, outside any \<open>try\<close>.
\<close>

definition get_company_by_selection ::
  "company list \<Rightarrow> ustr option \<Rightarrow> world \<Rightarrow> (py_error + company option) \<times> world" where
  "get_company_by_selection df selected w =
     (case selected of
        None \<Rightarrow> (Inr None, w)
      | Some s \<Rightarrow>
          if s = [] \<or> s = NO_SELECTION then (Inr None, w)
          else
            let found = match_rows df s;
                company_data = (if found = [] then take 1 df else found);
                w1 = (if found = [] then emit (Warning_not_found s) w else w)
            in (case iloc0 company_data of
                  Inr r \<Rightarrow> (Inr (Some r), w1)
                | Inl e \<Rightarrow>
                    (case iloc0 df of
                       Inr r \<Rightarrow> (Inr (Some r), emit (Error_query e) w1)
                     | Inl e' \<Rightarrow> (Inl e', emit (Error_query e) w1))))"

section \<open>Metrics engine: the first half of \<open>generate_esg_analysis\<close>\<close>

subsection \<open>Reading one score\<close>

text \<open>
  The source reads a score with
  \<^verbatim>\<open>int(float(quant_val)) if str(quant_val).replace('.','').isdigit() else 0\<close>
  inside a \<open>try\<close> whose handler gives 0. The pieces:

  \<^item> \<open>int_float q\<close> is \<open>int(float(x))\<close> for a non-negative \<open>x\<close> (an integer, or decimal
    text) of exact value \<open>q\<close>: conversion to the nearest double (53 significant bits,
    ties to even), then truncation. \<open>None\<close> is the \<open>OverflowError\<close> of a value too large
    for a double.
  \<^item> An integer prints as digits exactly when it is not negative.
  \<^item> A finite float prints as digits and one dot exactly when it is \<open>0.0\<close> or lies in
    \<open>[0.0001, 10^16)\<close> (otherwise with a sign or an exponent); below 1 both branches give
    0, so only the range from 1 matters. NaN and the infinities print as letters.
  \<^item> Text passes the test when, dots removed, it is not empty and every character is a
    digit of some script; \<open>float()\<close> then reads decimal digits of every script, and
    rejects a digit that is not decimal and a second dot.
\<close>

definition round_half_even :: "rat \<Rightarrow> int" where
  "round_half_even q =
     (let f = \<lfloor>q\<rfloor>; r = q - of_int f
      in if r < 1 / 2 then f else if 1 / 2 < r then f + 1 else if even f then f else f + 1)"

fun bit_length :: "nat \<Rightarrow> nat" where
  "bit_length n = (if n = 0 then 0 else Suc (bit_length (n div 2)))"

definition int_float :: "rat \<Rightarrow> nat option" where
  "int_float q =
     (if q < 1 - 1 / 2 ^ 54 then Some 0
      else if q < 1 then Some 1
      else
        let k = bit_length (nat \<lfloor>q\<rfloor>)
        in if k \<le> 53
           then Some (nat (round_half_even (q * 2 ^ (53 - k)) div 2 ^ (53 - k)))
           else
             let m = round_half_even (q / 2 ^ (k - 53)) * 2 ^ (k - 53)
             in if 2 ^ 1024 \<le> m then None else Some (nat m))"

text \<open>
  The two character tables behind the test and the conversion, as of Unicode 14.0:
  \<open>DIGIT_RANGES\<close> holds the ranges of the characters for which \<open>str.isdigit()\<close> is
  true (decimal digits of every script, and digits that are not decimal, such as
  superscripts and circled digits); \<open>DECIMAL_ZEROS\<close> holds the digit zero of every run of
  ten decimal digits, which are the characters that \<open>float()\<close> reads as digits.
\<close>

definition DIGIT_RANGES :: "(nat \<times> nat) list" where
  "DIGIT_RANGES =
     [(0x30, 0x39), (0xB2, 0xB3), (0xB9, 0xB9), (0x660, 0x669),
      (0x6F0, 0x6F9), (0x7C0, 0x7C9), (0x966, 0x96F), (0x9E6, 0x9EF),
      (0xA66, 0xA6F), (0xAE6, 0xAEF), (0xB66, 0xB6F), (0xBE6, 0xBEF),
      (0xC66, 0xC6F), (0xCE6, 0xCEF), (0xD66, 0xD6F), (0xDE6, 0xDEF),
      (0xE50, 0xE59), (0xED0, 0xED9), (0xF20, 0xF29), (0x1040, 0x1049),
      (0x1090, 0x1099), (0x1369, 0x1371), (0x17E0, 0x17E9), (0x1810, 0x1819),
      (0x1946, 0x194F), (0x19D0, 0x19DA), (0x1A80, 0x1A89), (0x1A90, 0x1A99),
      (0x1B50, 0x1B59), (0x1BB0, 0x1BB9), (0x1C40, 0x1C49), (0x1C50, 0x1C59),
      (0x2070, 0x2070), (0x2074, 0x2079), (0x2080, 0x2089), (0x2460, 0x2468),
      (0x2474, 0x247C), (0x2488, 0x2490), (0x24EA, 0x24EA), (0x24F5, 0x24FD),
      (0x24FF, 0x24FF), (0x2776, 0x277E), (0x2780, 0x2788), (0x278A, 0x2792),
      (0xA620, 0xA629), (0xA8D0, 0xA8D9), (0xA900, 0xA909), (0xA9D0, 0xA9D9),
      (0xA9F0, 0xA9F9), (0xAA50, 0xAA59), (0xABF0, 0xABF9), (0xFF10, 0xFF19),
      (0x104A0, 0x104A9), (0x10A40, 0x10A43), (0x10D30, 0x10D39), (0x10E60, 0x10E68),
      (0x11052, 0x1105A), (0x11066, 0x1106F), (0x110F0, 0x110F9), (0x11136, 0x1113F),
      (0x111D0, 0x111D9), (0x112F0, 0x112F9), (0x11450, 0x11459), (0x114D0, 0x114D9),
      (0x11650, 0x11659), (0x116C0, 0x116C9), (0x11730, 0x11739), (0x118E0, 0x118E9),
      (0x11950, 0x11959), (0x11C50, 0x11C59), (0x11D50, 0x11D59), (0x11DA0, 0x11DA9),
      (0x16A60, 0x16A69), (0x16AC0, 0x16AC9), (0x16B50, 0x16B59), (0x1D7CE, 0x1D7FF),
      (0x1E140, 0x1E149), (0x1E2F0, 0x1E2F9), (0x1E950, 0x1E959), (0x1F100, 0x1F10A),
      (0x1FBF0, 0x1FBF9)]"

definition DECIMAL_ZEROS :: "nat list" where
  "DECIMAL_ZEROS =
     [0x30, 0x660, 0x6F0, 0x7C0, 0x966, 0x9E6, 0xA66, 0xAE6,
      0xB66, 0xBE6, 0xC66, 0xCE6, 0xD66, 0xDE6, 0xE50, 0xED0,
      0xF20, 0x1040, 0x1090, 0x17E0, 0x1810, 0x1946, 0x19D0, 0x1A80,
      0x1A90, 0x1B50, 0x1BB0, 0x1C40, 0x1C50, 0xA620, 0xA8D0, 0xA900,
      0xA9D0, 0xA9F0, 0xAA50, 0xABF0, 0xFF10, 0x104A0, 0x10D30, 0x11066,
      0x110F0, 0x11136, 0x111D0, 0x112F0, 0x11450, 0x114D0, 0x11650, 0x116C0,
      0x11730, 0x118E0, 0x11950, 0x11C50, 0x11D50, 0x11DA0, 0x16A60, 0x16AC0,
      0x16B50, 0x1D7CE, 0x1D7D8, 0x1D7E2, 0x1D7EC, 0x1D7F6, 0x1E140, 0x1E2F0,
      0x1E950, 0x1FBF0]"

text \<open>\<open>chr(c).isdigit()\<close>\<close>

definition py_isdigit :: "nat \<Rightarrow> bool" where
  "py_isdigit c = list_ex (\<lambda>(lo, hi). lo \<le> c \<and> c \<le> hi) DIGIT_RANGES"

text \<open>The decimal value of a character, \<open>None\<close> when it is not a decimal digit.\<close>

definition py_decimal :: "nat \<Rightarrow> nat option" where
  "py_decimal c = map_option (\<lambda>z. c - z) (find (\<lambda>z. z \<le> c \<and> c < z + 10) DECIMAL_ZEROS)"

text \<open>The decimal values of a run of characters, \<open>None\<close> when one of them has none.\<close>

fun digit_values :: "ustr \<Rightarrow> nat list option" where
  "digit_values [] = Some []"
| "digit_values (c # cs) =
     (case py_decimal c of
        None \<Rightarrow> None
      | Some d \<Rightarrow> map_option (Cons d) (digit_values cs))"

definition digits_value :: "nat list \<Rightarrow> nat" where
  "digits_value ds = foldl (\<lambda>a d. 10 * a + d) 0 ds"

text \<open>
  \<open>float(s)\<close> for text that passed the test, that is text of digits and dots with at
  least one digit: the exact value read, \<open>None\<close> for the \<open>ValueError\<close> of a second dot or
  of a digit that is not decimal.
\<close>

definition float_text :: "ustr \<Rightarrow> rat option" where
  "float_text s =
     (let ip = takeWhile (\<lambda>c. c \<noteq> DOT) s;
          fp = drop (Suc (length ip)) s
      in if DOT \<in> set fp then None
         else (case digit_values (ip @ fp) of
                 None \<Rightarrow> None
               | Some ds \<Rightarrow> Some (of_nat (digits_value ds) / 10 ^ length fp)))"

definition or_zero :: "nat option \<Rightarrow> nat" where
  "or_zero r = (case r of None \<Rightarrow> 0 | Some n \<Rightarrow> n)"

fun parse_quant :: "cell \<Rightarrow> nat" where
  "parse_quant (Int_cell i) = (if 0 \<le> i then or_zero (int_float (of_int i)) else 0)"
| "parse_quant (Float_cell q) = (if 1 \<le> q \<and> q < 10 ^ 16 then nat \<lfloor>q\<rfloor> else 0)"
| "parse_quant Nonfinite_cell = 0"
| "parse_quant (Text_cell s) =
     (let t = filter (\<lambda>c. c \<noteq> DOT) s
      in if t \<noteq> [] \<and> list_all py_isdigit t
         then (case float_text s of None \<Rightarrow> 0 | Some q \<Rightarrow> or_zero (int_float q))
         else 0)"

subsection \<open>The year series \<open>esg_data\<close>\<close>

text \<open>The default of \<open>company_data.get(rating_col, ...)\<close>: "no rating".\<close>

definition NO_RATING :: ustr where
  "NO_RATING = [0x65E0, 0x8BC4, 0x7EA7]"

text \<open>
  \<open>next((col for col in columns if str(year) in col), None)\<close>: the first column whose name
  contains the year's digits.
\<close>

definition find_col :: "ustr list \<Rightarrow> nat \<Rightarrow> ustr option" where
  "find_col columns y = find (\<lambda>col. py_in (py_str_nat y) col) columns"

record entry =
  year :: nat
  rating :: cell
  quant :: nat

text \<open>
  One turn of the loop over \<open>years\<close>: an entry when both columns exist (a found name is
  tested for truth, which an empty name fails), nothing otherwise. A column missing from
  the row reads as the default of \<open>get\<close>.
\<close>

definition esg_entry :: "config \<Rightarrow> company \<Rightarrow> nat \<Rightarrow> entry option" where
  "esg_entry cfg c y =
     (case (find_col (rating_columns cfg) y, find_col (quant_columns cfg) y) of
        (Some rating_col, Some quant_col) \<Rightarrow>
          if rating_col \<noteq> [] \<and> quant_col \<noteq> []
          then Some \<lparr>year = y,
                     rating = (case map_of (cells c) rating_col of
                                 None \<Rightarrow> Text_cell NO_RATING | Some v \<Rightarrow> v),
                     quant = parse_quant (case map_of (cells c) quant_col of
                                            None \<Rightarrow> Int_cell 0 | Some v \<Rightarrow> v)\<rparr>
          else None
      | _ \<Rightarrow> None)"

definition extract_esg :: "config \<Rightarrow> company \<Rightarrow> entry list" where
  "extract_esg cfg c = List.map_filter (esg_entry cfg c) (years cfg)"

subsection \<open>The core metrics\<close>

definition STABLE :: ustr where "STABLE = [0x7A33, 0x5B9A]"
definition RISING :: ustr where "RISING = [0x4E0A, 0x5347]"
definition FALLING :: ustr where "FALLING = [0x4E0B, 0x964D]"

text \<open>
  \<open>avg_value\<close> is the exact quotient. The source holds the double nearest to it;
  rounding to a double is monotone and keeps the integers it is compared with, so the
  comparisons below agree with the source's. The fallback branch of the source holds the
  text \<open>'2020'\<close> as \<open>latest_year\<close>, which the report prints as it prints the number.
\<close>

record metrics =
  avg_value :: rat
  max_value :: nat
  min_value :: nat
  latest_value :: nat
  latest_year :: nat
  trend :: ustr

text \<open>\<open>[item[quant] for item in esg_data if item[quant] > 0]\<close>\<close>

definition quant_values :: "entry list \<Rightarrow> nat list" where
  "quant_values esg_data = filter (\<lambda>v. 0 < v) (map quant esg_data)"

definition trend_of :: "nat list \<Rightarrow> ustr" where
  "trend_of qv =
     (if 3 \<le> length qv
      then if hd qv < last qv then RISING
           else if last qv < hd qv then FALLING
           else STABLE
      else STABLE)"

definition compute_metrics :: "entry list \<Rightarrow> metrics" where
  "compute_metrics esg_data =
     (if esg_data \<noteq> []
      then
        let qv = quant_values esg_data
        in \<lparr>avg_value = (case qv of [] \<Rightarrow> 3
                          | _ # _ \<Rightarrow> of_nat (sum_list qv) / of_nat (length qv)),
            max_value = (case qv of [] \<Rightarrow> 4 | v # vs \<Rightarrow> fold max vs v),
            min_value = (case qv of [] \<Rightarrow> 2 | v # vs \<Rightarrow> fold min vs v),
            latest_value = quant (last esg_data),
            latest_year = year (last esg_data),
            trend = trend_of qv\<rparr>
      else
        \<lparr>avg_value = 3, max_value = 4, min_value = 2,
         latest_value = 3, latest_year = 2020, trend = STABLE\<rparr>)"

subsection \<open>The level\<close>

definition EXCELLENT :: ustr where "EXCELLENT = [0x4F18, 0x79C0]"
definition GOOD :: ustr where "GOOD = [0x826F, 0x597D]"
definition MODERATE :: ustr where "MODERATE = [0x4E2D, 0x7B49]"
definition NEEDS_IMPROVEMENT :: ustr where "NEEDS_IMPROVEMENT = [0x5F85, 0x63D0, 0x5347]"

definition level_of :: "rat \<Rightarrow> ustr" where
  "level_of avg =
     (if 5 \<le> avg then EXCELLENT
      else if 4 \<le> avg then GOOD
      else if 3 \<le> avg then MODERATE
      else NEEDS_IMPROVEMENT)"

text \<open>"solid", "fairly strong", "average", "weak"\<close>

definition foundation_of :: "rat \<Rightarrow> ustr" where
  "foundation_of avg =
     (if 5 \<le> avg then [0x96C4, 0x539A]
      else if 4 \<le> avg then [0x8F83, 0x5F3A]
      else if 3 \<le> avg then [0x4E00, 0x822C]
      else [0x8584, 0x5F31])"

text \<open>"6-12 months", "12-24 months", "24-36 months"\<close>

definition cycle_of :: "rat \<Rightarrow> ustr" where
  "cycle_of avg =
     (if 5 \<le> avg then asc ''6-12'' @ [0x4E2A, 0x6708]
      else if 4 \<le> avg then asc ''12-24'' @ [0x4E2A, 0x6708]
      else if 3 \<le> avg then asc ''12-24'' @ [0x4E2A, 0x6708]
      else asc ''24-36'' @ [0x4E2A, 0x6708])"

section \<open>Narrative composer: the second half of \<open>generate_esg_analysis\<close>\<close>

text \<open>
  The report is one formatted string. Its fixed pieces are \<open>tpl_00\<close> to \<open>tpl_19\<close>, in the
  order of the source's template, with the interpolated values between them; the four
  strategy sentences are chosen by comparing \<open>level\<close> with the first three level texts.
  The pieces hold, in Markdown: the title line; "1. company basics" (name, code, listing
  date, data coverage); "2. ESG assessment" (2.1 overall level, 2.2 key figures: average,
  highest, lowest and latest score, trend); "3. digital transformation advice" (3.1
  strategy, 3.2 a roadmap of three numbered phases); "4. risks and expected benefits"
  (numbered lists); "5. conclusion".
\<close>

definition tpl_00 :: ustr where
  "tpl_00 =
    [0x23, 0x20]"

definition tpl_01 :: ustr where
  "tpl_01 =
    [0x28]"

definition tpl_02 :: ustr where
  "tpl_02 =
    [0x29, 0x20, 0x45, 0x53, 0x47, 0x6570, 0x5B57, 0x5316, 0x8F6C, 0x578B,
     0x5206, 0x6790, 0x62A5, 0x544A, 0xA, 0xA, 0x23, 0x23, 0x20, 0x4E00,
     0x3001, 0x4F01, 0x4E1A, 0x57FA, 0x7840, 0x4FE1, 0x606F, 0xA, 0x2D, 0x20,
     0x2A, 0x2A, 0x4F01, 0x4E1A, 0x540D, 0x79F0, 0x2A, 0x2A, 0x3A, 0x20]"

definition tpl_03 :: ustr where
  "tpl_03 =
    [0xA, 0x2D, 0x20, 0x2A, 0x2A, 0x8BC1, 0x5238, 0x4EE3, 0x7801, 0x2A,
     0x2A, 0x3A, 0x20]"

definition tpl_04 :: ustr where
  "tpl_04 =
    [0xA, 0x2D, 0x20, 0x2A, 0x2A, 0x4E0A, 0x5E02, 0x65E5, 0x671F, 0x2A,
     0x2A, 0x3A, 0x20]"

definition tpl_05 :: ustr where
  "tpl_05 =
    [0xA, 0x2D, 0x20, 0x2A, 0x2A, 0x6570, 0x636E, 0x8986, 0x76D6, 0x2A,
     0x2A, 0x3A, 0x20, 0x32, 0x30, 0x30, 0x39, 0x2D, 0x32, 0x30,
     0x32, 0x30, 0x5E74, 0x45, 0x53, 0x47, 0x8BC4, 0x7EA7, 0x6570, 0x636E,
     0xA, 0xA, 0x23, 0x23, 0x20, 0x4E8C, 0x3001, 0x45, 0x53, 0x47,
     0x8868, 0x73B0, 0x7EFC, 0x5408, 0x8BC4, 0x4F30, 0xA, 0x23, 0x23, 0x23,
     0x20, 0x32, 0x2E, 0x31, 0x20, 0x6574, 0x4F53, 0x6C34, 0x5E73, 0xA]"

definition tpl_06 :: ustr where
  "tpl_06 =
    [0x7684, 0x45, 0x53, 0x47, 0x91CF, 0x5316, 0x503C, 0x5E73, 0x5747, 0x4E3A]"

definition tpl_07 :: ustr where
  "tpl_07 =
    [0x5206, 0xFF08, 0x6EE1, 0x5206, 0x36, 0x5206, 0xFF09, 0xFF0C, 0x5728, 0x884C,
     0x4E1A, 0x4E2D, 0x5C5E, 0x4E8E]"

definition tpl_08 :: ustr where
  "tpl_08 =
    [0x6C34, 0x5E73, 0xFF0C, 0x5177, 0x5907]"

definition tpl_09 :: ustr where
  "tpl_09 =
    [0x7684, 0x53EF, 0x6301, 0x7EED, 0x53D1, 0x5C55, 0x57FA, 0x7840, 0x3002, 0xA,
     0xA, 0x23, 0x23, 0x23, 0x20, 0x32, 0x2E, 0x32, 0x20, 0x5173,
     0x952E, 0x6307, 0x6807, 0xA, 0x2D, 0x20, 0x2A, 0x2A, 0x5E73, 0x5747,
     0x91CF, 0x5316, 0x503C, 0x2A, 0x2A, 0x3A, 0x20]"

definition tpl_10 :: ustr where
  "tpl_10 =
    [0x5206, 0xA, 0x2D, 0x20, 0x2A, 0x2A, 0x6700, 0x9AD8, 0x91CF, 0x5316,
     0x503C, 0x2A, 0x2A, 0x3A, 0x20]"

definition tpl_11 :: ustr where
  "tpl_11 =
    [0x5206, 0xA, 0x2D, 0x20, 0x2A, 0x2A, 0x6700, 0x4F4E, 0x91CF, 0x5316,
     0x503C, 0x2A, 0x2A, 0x3A, 0x20]"

definition tpl_12 :: ustr where
  "tpl_12 =
    [0x5206, 0xA, 0x2D, 0x20, 0x2A, 0x2A, 0x6700, 0x65B0, 0x91CF, 0x5316,
     0x503C, 0x2A, 0x2A, 0x3A, 0x20]"

definition tpl_13 :: ustr where
  "tpl_13 =
    [0x5206, 0xFF08]"

definition tpl_14 :: ustr where
  "tpl_14 =
    [0x5E74, 0xFF09, 0xA, 0x2D, 0x20, 0x2A, 0x2A, 0x53D1, 0x5C55, 0x8D8B,
     0x52BF, 0x2A, 0x2A, 0x3A, 0x20]"

definition tpl_15 :: ustr where
  "tpl_15 =
    [0x8D8B, 0x52BF, 0xA, 0xA, 0x23, 0x23, 0x20, 0x4E09, 0x3001, 0x6570,
     0x5B57, 0x5316, 0x8F6C, 0x578B, 0x6218, 0x7565, 0x5EFA, 0x8BAE, 0xA, 0x23,
     0x23, 0x23, 0x20, 0x33, 0x2E, 0x31, 0x20, 0x6218, 0x7565, 0x5B9A,
     0x4F4D, 0xA]"

definition tpl_16 :: ustr where
  "tpl_16 =
    [0xA, 0xA, 0x23, 0x23, 0x23, 0x20, 0x33, 0x2E, 0x32, 0x20,
     0x5B9E, 0x65BD, 0x8DEF, 0x5F84, 0xA, 0x31, 0x2E, 0x20, 0x2A, 0x2A,
     0x51C6, 0x5907, 0x9636, 0x6BB5, 0x2A, 0x2A, 0xFF08, 0x31, 0x2D, 0x33,
     0x4E2A, 0x6708, 0xFF09, 0xFF1A, 0x73B0, 0x72B6, 0x8C03, 0x7814, 0x3001, 0x9700,
     0x6C42, 0x5206, 0x6790, 0x3001, 0x65B9, 0x6848, 0x8BBE, 0x8BA1, 0xA, 0x32,
     0x2E, 0x20, 0x2A, 0x2A, 0x5B9E, 0x65BD, 0x9636, 0x6BB5, 0x2A, 0x2A,
     0xFF08, 0x33, 0x2D, 0x31, 0x32, 0x4E2A, 0x6708, 0xFF09, 0xFF1A, 0x7CFB,
     0x7EDF, 0x90E8, 0x7F72, 0x3001, 0x6570, 0x636E, 0x8FC1, 0x79FB, 0x3001, 0x4EBA,
     0x5458, 0x57F9, 0x8BAD, 0xA, 0x33, 0x2E, 0x20, 0x2A, 0x2A, 0x4F18,
     0x5316, 0x9636, 0x6BB5, 0x2A, 0x2A, 0xFF08, 0x31, 0x32, 0x2D, 0x32,
     0x34, 0x4E2A, 0x6708, 0xFF09, 0xFF1A, 0x6548, 0x679C, 0x8BC4, 0x4F30, 0x3001,
     0x6301, 0x7EED, 0x6539, 0x8FDB, 0xA, 0xA, 0x23, 0x23, 0x20, 0x56DB,
     0x3001, 0x98CE, 0x9669, 0x63D0, 0x793A, 0x4E0E, 0x9884, 0x671F, 0x6548, 0x76CA,
     0xA, 0x23, 0x23, 0x23, 0x20, 0x34, 0x2E, 0x31, 0x20, 0x4E3B,
     0x8981, 0x98CE, 0x9669, 0xA, 0x31, 0x2E, 0x20, 0x2A, 0x2A, 0x6280,
     0x672F, 0x98CE, 0x9669, 0x2A, 0x2A, 0xFF1A, 0x7CFB, 0x7EDF, 0x9009, 0x578B,
     0x4E0D, 0x5F53, 0x5BFC, 0x81F4, 0x517C, 0x5BB9, 0x6027, 0x95EE, 0x9898, 0xA,
     0x32, 0x2E, 0x20, 0x2A, 0x2A, 0x6570, 0x636E, 0x98CE, 0x9669, 0x2A,
     0x2A, 0xFF1A, 0x6570, 0x636E, 0x8D28, 0x91CF, 0x4E0D, 0x9AD8, 0x5F71, 0x54CD,
     0x5206, 0x6790, 0x7ED3, 0x679C, 0xA, 0x33, 0x2E, 0x20, 0x2A, 0x2A,
     0x843D, 0x5730, 0x98CE, 0x9669, 0x2A, 0x2A, 0xFF1A, 0x5458, 0x5DE5, 0x6570,
     0x5B57, 0x5316, 0x80FD, 0x529B, 0x4E0D, 0x8DB3, 0x5BFC, 0x81F4, 0x63A8, 0x8FDB,
     0x56F0, 0x96BE, 0xA, 0xA, 0x23, 0x23, 0x23, 0x20, 0x34, 0x2E,
     0x32, 0x20, 0x9884, 0x671F, 0x6548, 0x76CA, 0xA, 0x31, 0x2E, 0x20,
     0x2A, 0x2A, 0x6548, 0x7387, 0x63D0, 0x5347, 0x2A, 0x2A, 0xFF1A, 0x45,
     0x53, 0x47, 0x7BA1, 0x7406, 0x6548, 0x7387, 0x63D0, 0x5347, 0x33, 0x30,
     0x25, 0x2D, 0x35, 0x30, 0x25, 0xA, 0x32, 0x2E, 0x20, 0x2A,
     0x2A, 0x8D28, 0x91CF, 0x6539, 0x5584, 0x2A, 0x2A, 0xFF1A, 0x6570, 0x636E,
     0x51C6, 0x786E, 0x6027, 0x63D0, 0x5347, 0x81F3, 0x39, 0x35, 0x25, 0x4EE5,
     0x4E0A, 0xA, 0x33, 0x2E, 0x20, 0x2A, 0x2A, 0x51B3, 0x7B56, 0x652F,
     0x6301, 0x2A, 0x2A, 0xFF1A, 0x4E3A, 0x7BA1, 0x7406, 0x5C42, 0x63D0, 0x4F9B,
     0x6570, 0x636E, 0x9A71, 0x52A8, 0x7684, 0x51B3, 0x7B56, 0x4F9D, 0x636E, 0xA,
     0x34, 0x2E, 0x20, 0x2A, 0x2A, 0x8BC4, 0x7EA7, 0x63D0, 0x5347, 0x2A,
     0x2A, 0xFF1A, 0x9884, 0x8BA1]"

definition tpl_17 :: ustr where
  "tpl_17 =
    [0x5185, 0x45, 0x53, 0x47, 0x8BC4, 0x7EA7, 0x63D0, 0x5347, 0x31, 0x2D,
     0x32, 0x4E2A, 0x7B49, 0x7EA7, 0xA, 0xA, 0x23, 0x23, 0x20, 0x4E94,
     0x3001, 0x7ED3, 0x8BBA, 0xA]"

definition tpl_18 :: ustr where
  "tpl_18 =
    [0x901A, 0x8FC7, 0x7CFB, 0x7EDF, 0x5316, 0x7684, 0x6570, 0x5B57, 0x5316, 0x8F6C,
     0x578B, 0xFF0C, 0x6709, 0x671B, 0x5728]"

definition tpl_19 :: ustr where
  "tpl_19 =
    [0x5185, 0x5B9E, 0x73B0, 0x45, 0x53, 0x47, 0x7BA1, 0x7406, 0x6C34, 0x5E73,
     0x7684, 0x663E, 0x8457, 0x63D0, 0x5347, 0xFF0C, 0x4E3A, 0x4F01, 0x4E1A, 0x53EF,
     0x6301, 0x7EED, 0x53D1, 0x5C55, 0x5960, 0x5B9A, 0x575A, 0x5B9E, 0x57FA, 0x7840,
     0x3002, 0xA]"

definition strategy_excellent :: ustr where
  "strategy_excellent =
    [0x4F5C, 0x4E3A, 0x45, 0x53, 0x47, 0x4F18, 0x79C0, 0x4F01, 0x4E1A, 0xFF0C,
     0x5EFA, 0x8BAE, 0x6253, 0x9020, 0x884C, 0x4E1A, 0x6570, 0x5B57, 0x5316, 0x6807,
     0x6746, 0xFF0C, 0x5EFA, 0x7ACB, 0x45, 0x53, 0x47, 0x6570, 0x636E, 0x4E2D,
     0x53F0, 0x548C, 0x41, 0x49, 0x98CE, 0x9669, 0x9884, 0x8B66, 0x7CFB, 0x7EDF,
     0x3002]"

definition strategy_good :: ustr where
  "strategy_good =
    [0x4F5C, 0x4E3A, 0x45, 0x53, 0x47, 0x826F, 0x597D, 0x4F01, 0x4E1A, 0xFF0C,
     0x5EFA, 0x8BAE, 0x4F18, 0x5316, 0x6570, 0x636E, 0x91C7, 0x96C6, 0x6D41, 0x7A0B,
     0xFF0C, 0x5EFA, 0x7ACB, 0x53EF, 0x89C6, 0x5316, 0x7BA1, 0x7406, 0x770B, 0x677F,
     0xFF0C, 0x63D0, 0x5347, 0x6570, 0x5B57, 0x5316, 0x80FD, 0x529B, 0x3002]"

definition strategy_moderate :: ustr where
  "strategy_moderate =
    [0x4F5C, 0x4E3A, 0x45, 0x53, 0x47, 0x4E2D, 0x7B49, 0x4F01, 0x4E1A, 0xFF0C,
     0x5EFA, 0x8BAE, 0x592F, 0x5B9E, 0x6570, 0x636E, 0x57FA, 0x7840, 0xFF0C, 0x90E8,
     0x7F72, 0x6807, 0x51C6, 0x5316, 0x7BA1, 0x7406, 0x8F6F, 0x4EF6, 0xFF0C, 0x5206,
     0x9636, 0x6BB5, 0x63A8, 0x8FDB, 0x8F6C, 0x578B, 0x3002]"

definition strategy_needs_improvement :: ustr where
  "strategy_needs_improvement =
    [0x4F5C, 0x4E3A, 0x45, 0x53, 0x47, 0x5F85, 0x63D0, 0x5347, 0x4F01, 0x4E1A,
     0xFF0C, 0x5EFA, 0x8BAE, 0x5148, 0x89E3, 0x51B3, 0x6570, 0x636E, 0x7F3A, 0x5931,
     0x95EE, 0x9898, 0xFF0C, 0x5F15, 0x5165, 0x8F7B, 0x91CF, 0x5316, 0x5DE5, 0x5177,
     0xFF0C, 0x9010, 0x6B65, 0x63D0, 0x5347, 0x7BA1, 0x7406, 0x6C34, 0x5E73, 0x3002]"

definition strategy_of :: "ustr \<Rightarrow> ustr" where
  "strategy_of level =
     (if level = EXCELLENT then strategy_excellent
      else if level = GOOD then strategy_good
      else if level = MODERATE then strategy_moderate
      else strategy_needs_improvement)"

text \<open>
  \<open>fmt1\<close> stands for Python's \<open>format(avg_value, '.1f')\<close>. It prints the double that the
  source holds, rounded to one decimal; that rounding is floating-point arithmetic and is
  not modelled, so the formatter is a parameter.
\<close>

definition report_text :: "(rat \<Rightarrow> ustr) \<Rightarrow> company \<Rightarrow> metrics \<Rightarrow> ustr" where
  "report_text fmt1 c m =
     (let level = level_of (avg_value m);
          foundation = foundation_of (avg_value m);
          cycle = cycle_of (avg_value m)
      in concat
        [tpl_00, stock_name c, tpl_01, stock_code c, tpl_02, stock_name c,
         tpl_03, stock_code c, tpl_04, listing_date c, tpl_05, stock_name c,
         tpl_06, fmt1 (avg_value m), tpl_07, level, tpl_08, foundation,
         tpl_09, fmt1 (avg_value m), tpl_10, py_str_nat (max_value m),
         tpl_11, py_str_nat (min_value m), tpl_12, py_str_nat (latest_value m),
         tpl_13, py_str_nat (latest_year m), tpl_14, trend m,
         tpl_15, strategy_of level, tpl_16, cycle, tpl_17, stock_name c,
         tpl_18, cycle, tpl_19])"

text \<open>The report returned for \<open>company_data is None\<close>: "no company data", then "select a company to see the detailed report".\<close>

definition NO_DATA_REPORT :: ustr where
  "NO_DATA_REPORT =
    [0x23, 0x20, 0x6682, 0x65E0, 0x4F01, 0x4E1A, 0x6570, 0x636E, 0xA, 0xA,
     0x23, 0x23, 0x20, 0x8BF7, 0x9009, 0x62E9, 0x4F01, 0x4E1A, 0x540E, 0x67E5,
     0x770B, 0x8BE6, 0x7EC6, 0x5206, 0x6790, 0x62A5, 0x544A]"

text \<open>
  The whole function. No operation of its \<open>try\<close> block raises on the values modelled
  here, so the handler and its short report are not reached; the function shows nothing
  and reads neither the clock nor the events.
\<close>

definition generate_esg_analysis ::
  "config \<Rightarrow> (rat \<Rightarrow> ustr) \<Rightarrow> company option \<Rightarrow> world \<Rightarrow> ustr \<times> world" where
  "generate_esg_analysis cfg fmt1 company_data w =
     (case company_data of
        None \<Rightarrow> (NO_DATA_REPORT, w)
      | Some c \<Rightarrow> (report_text fmt1 c (compute_metrics (extract_esg cfg c)), w))"

section \<open>Document renderer: \<open>generate_pdf_report\<close>\<close>

subsection \<open>Cleaning the text\<close>

text \<open>
  White space as \<open>str.strip()\<close> and the class \<open>\s\<close> of a text pattern see it.
\<close>

definition is_space :: "nat \<Rightarrow> bool" where
  "is_space c =
     ((0x09 \<le> c \<and> c \<le> 0x0D) \<or> (0x1C \<le> c \<and> c \<le> 0x20) \<or> c = 0x85 \<or> c = 0xA0
      \<or> c = 0x1680 \<or> (0x2000 \<le> c \<and> c \<le> 0x200A) \<or> c = 0x2028 \<or> c = 0x2029
      \<or> c = 0x202F \<or> c = 0x205F \<or> c = 0x3000)"

definition strip :: "ustr \<Rightarrow> ustr" where
  "strip s = rev (dropWhile is_space (rev (dropWhile is_space s)))"

text \<open>
  The characters that the pattern of \<open>re.sub\<close> keeps: U+4E00 to U+9FFF, digits, ASCII
  letters, white space, the marks \<open>. , ; : ! ? ( )\<close>, the full-width parentheses, the
  lenticular brackets U+3010 and U+3011, and the hyphen.
\<close>

definition allowed :: "nat \<Rightarrow> bool" where
  "allowed c =
     ((0x4E00 \<le> c \<and> c \<le> 0x9FFF) \<or> (0x30 \<le> c \<and> c \<le> 0x39)
      \<or> (0x61 \<le> c \<and> c \<le> 0x7A) \<or> (0x41 \<le> c \<and> c \<le> 0x5A)
      \<or> is_space c \<or> c = NEWLINE \<or> c = 0x0D
      \<or> c \<in> set (asc ''.,;:!?()'') \<or> c = LPAREN \<or> c = RPAREN
      \<or> c = 0x3010 \<or> c = 0x3011 \<or> c = 0x2D)"

text \<open>
  \<open>s.replace(old, '')\<close>: every occurrence of \<open>old\<close> is dropped, scanning from the left
  without overlap. The source calls it with non-empty \<open>old\<close> only; for an empty \<open>old\<close>
  and an empty replacement Python returns \<open>s\<close>, as here.
\<close>

function py_remove :: "ustr \<Rightarrow> ustr \<Rightarrow> ustr" where
  "py_remove old [] = []"
| "py_remove old (c # cs) =
     (if old \<noteq> [] \<and> startswith (c # cs) old
      then py_remove old (drop (length old) (c # cs))
      else c # py_remove old cs)"
  by pat_completeness auto
termination
  by (relation "measure (\<lambda>(old, s). length s)") auto

definition clean :: "ustr \<Rightarrow> ustr" where
  "clean content =
     py_remove (asc ''### '') (py_remove (asc ''## '') (py_remove (asc ''# '')
       (filter allowed content)))"

text \<open>\<open>s.split('\n')\<close>\<close>

fun split_lines :: "ustr \<Rightarrow> ustr list" where
  "split_lines [] = [[]]"
| "split_lines (c # cs) =
     (if c = NEWLINE then [] # split_lines cs
      else (case split_lines cs of [] \<Rightarrow> [[c]] | l # ls \<Rightarrow> (c # l) # ls))"

subsection \<open>Page elements\<close>

datatype style = Title_style | H2_style | H3_style | Body_style | List_style | Basic_style

datatype flowable =
    Paragraph ustr style
  | Spacer nat nat
  | PageBreak

text \<open>
  The body of the loop over the lines: the line is stripped, an empty one gives a spacer,
  any other one a paragraph whose style the first matching prefix decides. The prefixes
  are: the numeral "one" U+4E00 with the enumeration comma U+3001, or \<open>1.\<close>; "one" in
  full-width parentheses, or \<open>2.\<close>; a hyphen or a bullet U+2022 with a space.
\<close>

definition line_element :: "ustr \<Rightarrow> flowable" where
  "line_element raw =
     (let line = strip raw
      in if line = [] then Spacer 1 8
         else if startswith line [0x4E00, 0x3001] \<or> startswith line (asc ''1.'')
           then Paragraph line H2_style
         else if startswith line [LPAREN, 0x4E00, RPAREN] \<or> startswith line (asc ''2.'')
           then Paragraph line H3_style
         else if startswith line (asc ''- '') \<or> startswith line [0x2022, 0x20]
           then Paragraph line List_style
         else Paragraph line Body_style)"

definition default_head :: ustr where
  "default_head =
    [0x20, 0x45, 0x53, 0x47, 0x5206, 0x6790, 0x62A5, 0x544A, 0xA, 0xA,
     0x23, 0x23, 0x20, 0x57FA, 0x7840, 0x4FE1, 0x606F, 0xA, 0x2D, 0x20,
     0x8BC1, 0x5238, 0x4EE3, 0x7801, 0xFF1A]"

definition default_tail :: ustr where
  "default_tail =
    [0xA, 0x2D, 0x20, 0x5206, 0x6790, 0x7ED3, 0x8BBA, 0xFF1A, 0x4F01, 0x4E1A,
     0x45, 0x53, 0x47, 0x8868, 0x73B0, 0x826F, 0x597D]"

definition title_tail :: ustr where
  "title_tail =
    [0x29, 0x20, 0x45, 0x53, 0x47, 0x6570, 0x5B57, 0x5316, 0x8F6C, 0x578B,
     0x5206, 0x6790, 0x62A5, 0x544A]"

definition footer_head :: ustr where
  "footer_head = [0x62A5, 0x544A, 0x751F, 0x6210, 0x65F6, 0x95F4, 0xFF1A]"

definition fallback_title_tail :: ustr where
  "fallback_title_tail = [0x20, 0x45, 0x53, 0x47, 0x5206, 0x6790, 0x62A5, 0x544A]"

definition fallback_code_head :: ustr where
  "fallback_code_head = [0x8BC1, 0x5238, 0x4EE3, 0x7801, 0xFF1A]"

definition fallback_line_1 :: ustr where
  "fallback_line_1 =
    [0x45, 0x53, 0x47, 0x6574, 0x4F53, 0x8868, 0x73B0, 0x826F, 0x597D, 0xFF0C,
     0x5177, 0x5907, 0x6570, 0x5B57, 0x5316, 0x8F6C, 0x578B, 0x57FA, 0x7840]"

definition fallback_line_2 :: ustr where
  "fallback_line_2 =
    [0x5EFA, 0x8BAE, 0x31, 0x32, 0x2D, 0x32, 0x34, 0x4E2A, 0x6708, 0x5B8C,
     0x6210, 0x6570, 0x5B57, 0x5316, 0x8F6C, 0x578B, 0x843D, 0x5730]"

text \<open>
  The content used when \<open>analysis_content\<close> is \<open>None\<close>, empty or white space only.
\<close>

definition default_content :: "ustr \<Rightarrow> ustr \<Rightarrow> ustr" where
  "default_content company_name code =
     asc ''# '' @ company_name @ default_head @ code @ default_tail"

definition effective_content :: "ustr option \<Rightarrow> ustr \<Rightarrow> ustr \<Rightarrow> ustr" where
  "effective_content analysis_content company_name code =
     (case analysis_content of
        None \<Rightarrow> default_content company_name code
      | Some a \<Rightarrow> if a = [] \<or> strip a = [] then default_content company_name code else a)"

text \<open>The list \<open>elements\<close> of the styled document.\<close>

definition styled_elements :: "ustr \<Rightarrow> ustr option \<Rightarrow> ustr \<Rightarrow> ustr \<Rightarrow> flowable list" where
  "styled_elements stamp analysis_content company_name code =
     [Paragraph (company_name @ asc ''('' @ code @ title_tail) Title_style, Spacer 1 20]
     @ map line_element (split_lines (clean (effective_content analysis_content company_name code)))
     @ [PageBreak, Paragraph (footer_head @ stamp) Body_style]"

text \<open>The list \<open>fallback_elements\<close> of the minimal document.\<close>

definition fallback_elements :: "ustr \<Rightarrow> ustr \<Rightarrow> flowable list" where
  "fallback_elements company_name code =
     [Paragraph (company_name @ fallback_title_tail) Basic_style,
      Spacer 1 10,
      Paragraph (fallback_code_head @ code) Basic_style,
      Spacer 1 10,
      Paragraph fallback_line_1 Basic_style,
      Paragraph fallback_line_2 Basic_style]"

subsection \<open>The PDF library\<close>

text \<open>
  The document is produced by the library \<open>reportlab\<close>, which is not part of the program.
  The model takes from it what the control flow of \<open>generate_pdf_report\<close> depends on:
  whether \<open>Paragraph(text, style)\<close> accepts a text (it parses the text as markup and raises
  \<open>ValueError\<close> on text that is not well formed), and what \<open>build\<close> does with a list of
  elements: the bytes written to the buffer, or an exception.
\<close>

type_synonym bytes = "nat list"

datatype page = Landscape_A4 | Portrait_A4

record pdflib =
  para_ok :: "ustr \<Rightarrow> bool"
  build :: "page \<Rightarrow> flowable list \<Rightarrow> py_error + bytes"

definition paragraphs_ok :: "pdflib \<Rightarrow> flowable list \<Rightarrow> bool" where
  "paragraphs_ok lib els =
     list_all (\<lambda>e. case e of Paragraph t _ \<Rightarrow> para_ok lib t | _ \<Rightarrow> True) els"

text \<open>The bytes written by the last resort.\<close>

definition MINIMAL_PDF :: bytes where
  "MINIMAL_PDF =
     asc ''%PDF-1.4'' @ [NEWLINE] @
     asc ''1 0 obj'' @ [NEWLINE] @
     asc ''<< /Type /Catalog /Pages 2 0 R >>'' @ [NEWLINE] @
     asc ''endobj'' @ [NEWLINE] @
     asc ''2 0 obj'' @ [NEWLINE] @
     asc ''<< /Type /Pages /Kids [3 0 R] /Count 1 >>'' @ [NEWLINE] @
     asc ''endobj'' @ [NEWLINE] @
     asc ''3 0 obj'' @ [NEWLINE] @
     asc ''<< /Type /Page /Parent 2 0 R /MediaBox [0 0 612 792] >>'' @ [NEWLINE] @
     asc ''endobj'' @ [NEWLINE] @
     asc ''xref'' @ [NEWLINE] @
     asc ''0 4'' @ [NEWLINE] @
     asc ''0000000000 65535 f '' @ [NEWLINE] @
     asc ''0000000010 00000 n '' @ [NEWLINE] @
     asc ''0000000079 00000 n '' @ [NEWLINE] @
     asc ''0000000173 00000 n '' @ [NEWLINE] @
     asc ''trailer'' @ [NEWLINE] @
     asc ''<< /Size 4 /Root 1 0 R >>'' @ [NEWLINE] @
     asc ''startxref'' @ [NEWLINE] @
     asc ''262'' @ [NEWLINE] @
     asc ''%%EOF''"

subsection \<open>The three tiers\<close>

text \<open>
  The \<open>try\<close> block: the elements are made, then built. An exception of either step
  reaches the handler.
\<close>

definition styled_render :: "pdflib \<Rightarrow> ustr \<Rightarrow> ustr option \<Rightarrow> ustr \<Rightarrow> ustr \<Rightarrow> py_error + bytes" where
  "styled_render lib stamp analysis_content company_name code =
     (let elements = styled_elements stamp analysis_content company_name code
      in if paragraphs_ok lib elements then build lib Landscape_A4 elements
         else Inl ValueError)"

text \<open>
  The handler: it reports the error and makes the fallback elements, outside any \<open>try\<close>,
  so an exception there leaves the function. Only \<open>fallback_doc.build\<close> stands in the
  inner \<open>try\<close>, whose handler writes the fixed bytes.
\<close>

definition generate_pdf_report ::
  "pdflib \<Rightarrow> ustr option \<Rightarrow> ustr \<Rightarrow> ustr \<Rightarrow> world \<Rightarrow> (py_error + bytes) \<times> world" where
  "generate_pdf_report lib analysis_content company_name code w =
     (case styled_render lib (now w) analysis_content company_name code of
        Inr buffer \<Rightarrow> (Inr buffer, w)
      | Inl e \<Rightarrow>
          let w1 = emit (Error_pdf e) w;
              els = fallback_elements company_name code
          in if \<not> paragraphs_ok lib els then (Inl ValueError, w1)
             else (case build lib Portrait_A4 els of
                     Inr fallback_buffer \<Rightarrow> (Inr fallback_buffer, w1)
                   | Inl _ \<Rightarrow> (Inr MINIMAL_PDF, w1)))"

section \<open>The claims' vocabulary and concrete inputs\<close>

subsection \<open>Valid years\<close>

text \<open>
  The score that the loop reads for a year (0 when the year has no entry), and the years
  whose score is valid, that is positive, in the order of \<open>years\<close>.
\<close>

definition score_at :: "config \<Rightarrow> company \<Rightarrow> nat \<Rightarrow> nat" where
  "score_at cfg c y = (case esg_entry cfg c y of None \<Rightarrow> 0 | Some e \<Rightarrow> quant e)"

definition valid_years :: "config \<Rightarrow> company \<Rightarrow> nat list" where
  "valid_years cfg c = filter (\<lambda>y. 0 < score_at cfg c y) (years cfg)"

subsection \<open>The resolver as the specification words it\<close>

text \<open>
  The order of attempts as the specification states it, to be compared with
  \<open>get_company_by_selection\<close>: the identifier in the brackets; then, when there are no
  brackets or the identifier matched nothing, the name before the bracket; then the
  selection key; then the first record, marked as a fallback (\<open>False\<close>).
\<close>

definition resolve_as_specified :: "company list \<Rightarrow> ustr \<Rightarrow> (company \<times> bool) option" where
  "resolve_as_specified df s =
     (case (case re_search_paren s of
              Some code \<Rightarrow> find (\<lambda>c. stock_code c = code) df
            | None \<Rightarrow> None) of
        Some r \<Rightarrow> Some (r, True)
      | None \<Rightarrow>
          (case find (\<lambda>c. stock_name c = split_first LPAREN s) df of
             Some r \<Rightarrow> Some (r, True)
           | None \<Rightarrow>
               (case find (\<lambda>c. selection_key c = s) df of
                  Some r \<Rightarrow> Some (r, True)
                | None \<Rightarrow> (case df of [] \<Rightarrow> None | r # _ \<Rightarrow> Some (r, False)))))"

subsection \<open>Concrete inputs\<close>

definition w0 :: world where
  "w0 = \<lparr>events = [], now = asc ''2024-01-01 00:00:00''\<rparr>"

text \<open>Two records whose names and codes differ, and a selection naming the second by name with an unknown code.\<close>

definition co_b :: company where
  "co_b = \<lparr>stock_code = asc ''1'', stock_name = asc ''B'', listing_date = [], cells = []\<rparr>"

definition co_a :: company where
  "co_a = \<lparr>stock_code = asc ''2'', stock_name = asc ''A'', listing_date = [], cells = []\<rparr>"

definition sel_a9 :: ustr where
  "sel_a9 = asc ''A'' @ [LPAREN] @ asc ''9'' @ [RPAREN]"

text \<open>
  The names of the year columns in the data file: the year, then "year", the rating
  agency's name and "ESG rating"; the year, then an underscore and "quantified value".
\<close>

definition rating_col :: "nat \<Rightarrow> ustr" where
  "rating_col y = py_str_nat y @ [0x5E74, 0x534E, 0x8BC1] @ asc ''ESG'' @ [0x8BC4, 0x7EA7]"

definition quant_col :: "nat \<Rightarrow> ustr" where
  "quant_col y = py_str_nat y @ asc ''_'' @ [0x91CF, 0x5316, 0x503C]"

definition years_2009_2020 :: "nat list" where
  "years_2009_2020 = [2009, 2010, 2011, 2012, 2013, 2014, 2015, 2016, 2017, 2018, 2019, 2020]"

text \<open>A data file with the columns of 2018 to 2020, and the record of the specification's scenario A.\<close>

definition cfg_three :: config where
  "cfg_three = \<lparr>years = years_2009_2020,
                 rating_columns = [rating_col 2018, rating_col 2019, rating_col 2020],
                 quant_columns = [quant_col 2018, quant_col 2019, quant_col 2020]\<rparr>"

definition pingan :: company where
  "pingan = \<lparr>stock_code = asc ''000001'',
              stock_name = [0x5E73, 0x5B89, 0x94F6, 0x884C],
              listing_date = asc ''1991-04-03'',
              cells = [(rating_col 2018, Text_cell (asc ''A'')), (quant_col 2018, Int_cell 4),
                       (rating_col 2019, Text_cell (asc ''AA'')), (quant_col 2019, Int_cell 5),
                       (rating_col 2020, Text_cell (asc ''AA'')), (quant_col 2020, Int_cell 5)]\<rparr>"

text \<open>
  The columns of the built-in sample data (2019 and 2020), with two rows as a data file
  with gaps gives them: one with no score at all, one whose last score is missing.
\<close>

definition cfg_sample :: config where
  "cfg_sample = \<lparr>years = years_2009_2020,
                  rating_columns = [rating_col 2019, rating_col 2020],
                  quant_columns = [quant_col 2019, quant_col 2020]\<rparr>"

definition co_no_scores :: company where
  "co_no_scores = \<lparr>stock_code = asc ''600000'', stock_name = asc ''N'',
                    listing_date = asc ''2000-01-01'',
                    cells = [(rating_col 2019, Nonfinite_cell), (quant_col 2019, Nonfinite_cell),
                             (rating_col 2020, Nonfinite_cell), (quant_col 2020, Nonfinite_cell)]\<rparr>"

definition co_last_missing :: company where
  "co_last_missing = \<lparr>stock_code = asc ''600001'', stock_name = asc ''M'',
                       listing_date = asc ''2000-01-01'',
                       cells = [(rating_col 2019, Text_cell (asc ''AA'')), (quant_col 2019, Float_cell 5),
                                (rating_col 2020, Nonfinite_cell), (quant_col 2020, Nonfinite_cell)]\<rparr>"

text \<open>
  A model of the PDF library that rejects a paragraph holding an opening \<open><b>\<close> tag with
  no closing tag, as \<open>reportlab\<close> does, and builds any list of elements.
\<close>

definition lib_markup :: pdflib where
  "lib_markup = \<lparr>para_ok = (\<lambda>t. if py_in (asc ''<b>'') t then py_in (asc ''</b>'') t else True),
                  build = (\<lambda>p els. Inr (asc ''%PDF-1.4''))\<rparr>"

text \<open>A model of the PDF library that accepts every paragraph and whose \<open>build\<close> always fails.\<close>

definition lib_no_build :: pdflib where
  "lib_no_build = \<lparr>para_ok = (\<lambda>t. True), build = (\<lambda>p els. Inl LayoutError)\<rparr>"

section \<open>Properties\<close>

declare py_str_nat.simps [simp del]
declare bit_length.simps [simp del]

subsection \<open>Auxiliary facts\<close>

lemma startswith_prefix: "startswith s p \<longleftrightarrow> (\<exists>t. s = p @ t)"
  by (induction s p rule: startswith.induct) auto

lemma find_filter: "find P xs = (case filter P xs of [] \<Rightarrow> None | x # _ \<Rightarrow> Some x)"
  by (induction xs) auto

lemma sel_a9_facts:
  "sel_a9 \<noteq> []" "sel_a9 \<noteq> NO_SELECTION"
  "re_search_paren sel_a9 = Some (asc ''9'')"
  "split_first LPAREN sel_a9 = asc ''A''"
  by (simp_all add: sel_a9_def NO_SELECTION_def split_first_def)

lemma match_rows_a9: "match_rows [co_b, co_a] sel_a9 = []"
  by (simp add: match_rows_def sel_a9_facts co_a_def co_b_def selection_key_def sel_a9_def)

subsection \<open>Record resolver\<close>

text \<open>
  C3, as the specification states it, fails: its second step tries the name also when a
  bracketed identifier matched no record. The program tries the name only when the
  selection has no bracketed part. For the records \<open>co_b\<close>, \<open>co_a\<close> and the selection
  \<open>A(9)\<close> (with full-width parentheses) the program returns the first record \<open>co_b\<close> as a
  fallback, where the stated order returns \<open>co_a\<close>, matched by its name.
\<close>

theorem resolve_order_counterexample:
  "fst (get_company_by_selection [co_b, co_a] (Some sel_a9) w0) = Inr (Some co_b)
   \<and> resolve_as_specified [co_b, co_a] sel_a9 = Some (co_a, True)
   \<and> co_a \<noteq> co_b"
proof -
  have "fst (get_company_by_selection [co_b, co_a] (Some sel_a9) w0) = Inr (Some co_b)"
    by (simp add: get_company_by_selection_def sel_a9_facts match_rows_a9 iloc0_def)
  moreover have "resolve_as_specified [co_b, co_a] sel_a9 = Some (co_a, True)"
    by (simp add: resolve_as_specified_def sel_a9_facts co_a_def co_b_def)
  moreover have "co_a \<noteq> co_b"
    by (simp add: co_a_def co_b_def)
  ultimately show ?thesis by simp
qed

text \<open>
  C3, amended: for a selection that is neither empty nor the sentinel, and a dataset with at
  least one record, the program returns, in this order, the first record whose identifier
  equals the bracketed text when the selection has a bracketed part, or the first record
  whose name equals the text before the first opening bracket when it has none; else the
  first record whose selection key equals the selection; else the first record of the
  dataset, with a warning event. Only the last case adds an event, and none fails.
\<close>

theorem resolve_order:
  assumes "s \<noteq> []" and "s \<noteq> NO_SELECTION" and "df \<noteq> []"
  shows "get_company_by_selection df (Some s) w =
     (case (case re_search_paren s of
              Some code \<Rightarrow> find (\<lambda>c. stock_code c = code) df
            | None \<Rightarrow> find (\<lambda>c. stock_name c = split_first LPAREN s) df) of
        Some r \<Rightarrow> (Inr (Some r), w)
      | None \<Rightarrow>
          (case find (\<lambda>c. selection_key c = s) df of
             Some r \<Rightarrow> (Inr (Some r), w)
           | None \<Rightarrow> (Inr (Some (hd df)), emit (Warning_not_found s) w)))"
  using assms
  by (cases df)
     (auto simp: get_company_by_selection_def match_rows_def iloc0_def find_filter Let_def
           split: option.splits list.splits)

theorem resolve_order_witness:
  "sel_a9 \<noteq> [] \<and> sel_a9 \<noteq> NO_SELECTION \<and> [co_b, co_a] \<noteq> []
   \<and> get_company_by_selection [co_b, co_a] (Some sel_a9) w0
       = (Inr (Some co_b), emit (Warning_not_found sel_a9) w0)"
proof -
  have h: "sel_a9 \<noteq> []" "sel_a9 \<noteq> NO_SELECTION" "[co_b, co_a] \<noteq> []"
    by (simp_all add: sel_a9_facts)
  have by_code: "find (\<lambda>c. stock_code c = asc ''9'') [co_b, co_a] = None"
    by (simp add: co_a_def co_b_def)
  have by_key: "find (\<lambda>c. selection_key c = sel_a9) [co_b, co_a] = None"
    by (simp add: co_a_def co_b_def selection_key_def sel_a9_def)
  have "get_company_by_selection [co_b, co_a] (Some sel_a9) w0
          = (Inr (Some co_b), emit (Warning_not_found sel_a9) w0)"
    by (simp only: resolve_order [OF h] sel_a9_facts by_code by_key option.case list.sel)
  with h show ?thesis by simp
qed

text \<open>
  The case left out above: on an empty dataset the last resort has no first record, the
  handler's own \<open>df.iloc[0]\<close> raises, and \<open>IndexError\<close> leaves the function.
\<close>

lemma resolve_empty_dataset:
  "s \<noteq> [] \<Longrightarrow> s \<noteq> NO_SELECTION \<Longrightarrow>
   fst (get_company_by_selection [] (Some s) w) = Inl IndexError"
  by (simp add: get_company_by_selection_def match_rows_def iloc0_def Let_def
        split: option.splits)

text \<open>
  C8: an absent, empty or sentinel selection returns no record, without an error and
  without an event; and the composer, given no record, returns the placeholder report,
  which has a title line and exactly one section heading.
\<close>

theorem no_selection_placeholder:
  "get_company_by_selection df None w = (Inr None, w)
   \<and> get_company_by_selection df (Some []) w = (Inr None, w)
   \<and> get_company_by_selection df (Some NO_SELECTION) w = (Inr None, w)
   \<and> generate_esg_analysis cfg fmt1 None w = (NO_DATA_REPORT, w)
   \<and> length (filter (\<lambda>l. startswith l (asc ''## '')) (split_lines NO_DATA_REPORT)) = 1"
proof -
  have "length (filter (\<lambda>l. startswith l (asc ''## '')) (split_lines NO_DATA_REPORT)) = 1"
    by (simp add: NO_DATA_REPORT_def)
  then show ?thesis
    by (simp add: get_company_by_selection_def generate_esg_analysis_def)
qed

subsection \<open>Narrative composer\<close>

text \<open>
  C7: the report of \<open>generate_esg_analysis\<close> is the same whatever was shown before and
  whatever the time (two calls with the same record give the same text), and the call
  changes nothing outside: it is deterministic and pure.
\<close>

theorem compose_deterministic:
  "fst (generate_esg_analysis cfg fmt1 company_data w1)
     = fst (generate_esg_analysis cfg fmt1 company_data w2)
   \<and> snd (generate_esg_analysis cfg fmt1 company_data w) = w"
  by (simp add: generate_esg_analysis_def split: option.splits)

subsection \<open>Metrics engine\<close>

text \<open>
  C5: the level is one of the four level texts ("excellent", "good", "moderate", "to be
  improved") and is decided by the average alone, with inclusive lower bounds 5, 4 and 3
  tried from the top.
\<close>

theorem level_thresholds:
  "level_of avg \<in> {EXCELLENT, GOOD, MODERATE, NEEDS_IMPROVEMENT}
   \<and> (level_of avg = EXCELLENT \<longleftrightarrow> 5 \<le> avg)
   \<and> (level_of avg = GOOD \<longleftrightarrow> 4 \<le> avg \<and> avg < 5)
   \<and> (level_of avg = MODERATE \<longleftrightarrow> 3 \<le> avg \<and> avg < 4)
   \<and> (level_of avg = NEEDS_IMPROVEMENT \<longleftrightarrow> avg < 3)"
  by (auto simp: level_of_def EXCELLENT_def GOOD_def MODERATE_def NEEDS_IMPROVEMENT_def)

subsection \<open>Metrics engine: the valid scores\<close>

lemma quant_values_map_filter:
  "filter (\<lambda>v. 0 < v) (map quant (List.map_filter f ys)) =
   map (\<lambda>y. case f y of None \<Rightarrow> 0 | Some e \<Rightarrow> quant e)
       (filter (\<lambda>y. 0 < (case f y of None \<Rightarrow> 0 | Some e \<Rightarrow> quant e)) ys)"
  by (induction ys) (auto split: option.splits)

lemma quant_values_valid_years:
  "quant_values (extract_esg cfg c) = map (score_at cfg c) (valid_years cfg c)"
  unfolding quant_values_def extract_esg_def valid_years_def score_at_def
  by (rule quant_values_map_filter)

subsection \<open>Metrics engine: the concrete inputs evaluated\<close>

lemma py_str_nat_year:
  "py_str_nat 2009 = asc ''2009''" "py_str_nat 2010 = asc ''2010''" "py_str_nat 2011 = asc ''2011''"
  "py_str_nat 2012 = asc ''2012''" "py_str_nat 2013 = asc ''2013''" "py_str_nat 2014 = asc ''2014''"
  "py_str_nat 2015 = asc ''2015''" "py_str_nat 2016 = asc ''2016''" "py_str_nat 2017 = asc ''2017''"
  "py_str_nat 2018 = asc ''2018''" "py_str_nat 2019 = asc ''2019''" "py_str_nat 2020 = asc ''2020''"
  by (simp_all add: py_str_nat.simps)

lemma bit_length_small: "bit_length 4 = 3" "bit_length 5 = 3"
  by (simp_all add: bit_length.simps)

lemma int_float_small: "int_float 4 = Some 4" "int_float 5 = Some 5" "int_float 0 = Some 0"
  by (simp_all add: int_float_def round_half_even_def Let_def bit_length_small)

lemma parse_small:
  "parse_quant (Int_cell 4) = 4" "parse_quant (Int_cell 5) = 5" "parse_quant (Int_cell 0) = 0"
  "parse_quant (Float_cell 5) = 5" "parse_quant Nonfinite_cell = 0"
  by (simp_all add: int_float_small or_zero_def)

text \<open>
  Text in the digits of any script is a score: the ASCII, the full-width and the
  Arabic-Indic five all read as 5. A superscript two passes the digit test but
  \<open>float()\<close> rejects it, and a second dot is rejected too: both read as 0.
\<close>

lemma py_decimal_examples:
  "py_decimal 0x35 = Some 5" "py_decimal 0x34 = Some 4" "py_decimal 0xFF15 = Some 5"
  "py_decimal 0x665 = Some 5" "py_decimal 0xB2 = None"
  by (simp_all add: py_decimal_def DECIMAL_ZEROS_def)

lemma py_isdigit_examples:
  "py_isdigit 0x35" "py_isdigit 0x31" "py_isdigit 0x32" "py_isdigit 0x33" "py_isdigit 0xFF15" "py_isdigit 0x665" "py_isdigit 0xB2"
  "\<not> py_isdigit 0x4E"
  by (simp_all add: py_isdigit_def DIGIT_RANGES_def)


lemma float_text_examples:
  "float_text [0x35] = Some 5" "float_text [0x31, DOT, 0x32, DOT, 0x33] = None"
  "float_text [0xFF15] = Some 5" "float_text [0x665] = Some 5" "float_text [0xB2] = None"
  by (simp_all add: float_text_def Let_def py_decimal_examples digits_value_def)


lemma parse_text_examples:
  "parse_quant (Text_cell [0x35]) = 5"
  "parse_quant (Text_cell [0xFF15]) = 5"
  "parse_quant (Text_cell [0x665]) = 5"
  "parse_quant (Text_cell [0xB2]) = 0"
  "parse_quant (Text_cell [0x31, DOT, 0x32, DOT, 0x33]) = 0"
  by (simp_all add: Let_def py_isdigit_examples float_text_examples int_float_small or_zero_def)

lemma entries_three:
  "esg_entry cfg_three pingan 2009 = None" "esg_entry cfg_three pingan 2010 = None"
  "esg_entry cfg_three pingan 2011 = None" "esg_entry cfg_three pingan 2012 = None"
  "esg_entry cfg_three pingan 2013 = None" "esg_entry cfg_three pingan 2014 = None"
  "esg_entry cfg_three pingan 2015 = None" "esg_entry cfg_three pingan 2016 = None"
  "esg_entry cfg_three pingan 2017 = None"
  "esg_entry cfg_three pingan 2018 = Some \<lparr>year = 2018, rating = Text_cell (asc ''A''), quant = 4\<rparr>"
  "esg_entry cfg_three pingan 2019 = Some \<lparr>year = 2019, rating = Text_cell (asc ''AA''), quant = 5\<rparr>"
  "esg_entry cfg_three pingan 2020 = Some \<lparr>year = 2020, rating = Text_cell (asc ''AA''), quant = 5\<rparr>"
  by (simp_all add: esg_entry_def find_col_def cfg_three_def pingan_def quant_col_def rating_col_def
        py_str_nat_year parse_small int_float_small or_zero_def)

lemma extract_three:
  "extract_esg cfg_three pingan =
     [\<lparr>year = 2018, rating = Text_cell (asc ''A''), quant = 4\<rparr>,
      \<lparr>year = 2019, rating = Text_cell (asc ''AA''), quant = 5\<rparr>,
      \<lparr>year = 2020, rating = Text_cell (asc ''AA''), quant = 5\<rparr>]"
proof -
  have "years cfg_three = years_2009_2020" by (simp add: cfg_three_def)
  then show ?thesis
    by (simp add: extract_esg_def years_2009_2020_def entries_three)
qed

lemma valid_years_three: "valid_years cfg_three pingan = [2018, 2019, 2020]"
proof -
  have "years cfg_three = years_2009_2020" by (simp add: cfg_three_def)
  then show ?thesis
    by (simp add: valid_years_def score_at_def years_2009_2020_def entries_three)
qed

lemma metrics_three:
  "compute_metrics (extract_esg cfg_three pingan) =
     \<lparr>avg_value = 14 / 3, max_value = 5, min_value = 4, latest_value = 5,
      latest_year = 2020, trend = RISING\<rparr>"
  by (simp add: extract_three compute_metrics_def quant_values_def trend_of_def Let_def)

lemma entries_sample_none:
  "esg_entry cfg_sample c 2009 = None" "esg_entry cfg_sample c 2010 = None"
  "esg_entry cfg_sample c 2011 = None" "esg_entry cfg_sample c 2012 = None"
  "esg_entry cfg_sample c 2013 = None" "esg_entry cfg_sample c 2014 = None"
  "esg_entry cfg_sample c 2015 = None" "esg_entry cfg_sample c 2016 = None"
  "esg_entry cfg_sample c 2017 = None" "esg_entry cfg_sample c 2018 = None"
  by (simp_all add: esg_entry_def find_col_def cfg_sample_def quant_col_def rating_col_def
        py_str_nat_year)

lemma entries_no_scores:
  "esg_entry cfg_sample co_no_scores 2019 = Some \<lparr>year = 2019, rating = Nonfinite_cell, quant = 0\<rparr>"
  "esg_entry cfg_sample co_no_scores 2020 = Some \<lparr>year = 2020, rating = Nonfinite_cell, quant = 0\<rparr>"
  by (simp_all add: esg_entry_def find_col_def cfg_sample_def co_no_scores_def quant_col_def
        rating_col_def py_str_nat_year parse_small int_float_small or_zero_def)

lemma entries_last_missing:
  "esg_entry cfg_sample co_last_missing 2019
     = Some \<lparr>year = 2019, rating = Text_cell (asc ''AA''), quant = 5\<rparr>"
  "esg_entry cfg_sample co_last_missing 2020
     = Some \<lparr>year = 2020, rating = Nonfinite_cell, quant = 0\<rparr>"
  by (simp_all add: esg_entry_def find_col_def cfg_sample_def co_last_missing_def quant_col_def
        rating_col_def py_str_nat_year parse_small int_float_small or_zero_def)

lemma years_sample: "years cfg_sample = years_2009_2020"
  by (simp add: cfg_sample_def)

text \<open>
  C1 fails on the code. With the columns of 2019 and 2020 and a record whose two scores are
  missing, no year is valid; the average, maximum, minimum and trend take the fallback
  values 3, 4, 2 and "stable", but the latest score is 0, the unread score of the last
  year that has columns, where the claim says 3. The fallback 3 is reached only when no
  year has both columns (\<open>no_entry_metrics\<close>).
\<close>

theorem no_valid_score_latest_zero:
  "valid_years cfg_sample co_no_scores = []
   \<and> compute_metrics (extract_esg cfg_sample co_no_scores) =
       \<lparr>avg_value = 3, max_value = 4, min_value = 2, latest_value = 0,
        latest_year = 2020, trend = STABLE\<rparr>"
proof -
  have v: "valid_years cfg_sample co_no_scores = []"
    by (simp add: valid_years_def score_at_def years_sample years_2009_2020_def
          entries_sample_none entries_no_scores)
  have e: "extract_esg cfg_sample co_no_scores =
      [\<lparr>year = 2019, rating = Nonfinite_cell, quant = 0\<rparr>,
       \<lparr>year = 2020, rating = Nonfinite_cell, quant = 0\<rparr>]"
    by (simp add: extract_esg_def years_sample years_2009_2020_def entries_sample_none
          entries_no_scores)
  have "compute_metrics (extract_esg cfg_sample co_no_scores) =
       \<lparr>avg_value = 3, max_value = 4, min_value = 2, latest_value = 0,
        latest_year = 2020, trend = STABLE\<rparr>"
    by (simp add: e compute_metrics_def quant_values_def trend_of_def Let_def)
  with v show ?thesis by simp
qed

text \<open>
  C2 fails on the code. With the columns of 2019 and 2020 and a record whose score is 5 in
  2019 and missing in 2020, the only valid year is 2019, yet the latest year is 2020 and
  the latest score 0: they are read from the last year that has columns, valid or not.
\<close>

theorem latest_is_last_column:
  "valid_years cfg_sample co_last_missing = [2019]
   \<and> score_at cfg_sample co_last_missing 2019 = 5
   \<and> latest_year (compute_metrics (extract_esg cfg_sample co_last_missing)) = 2020
   \<and> latest_value (compute_metrics (extract_esg cfg_sample co_last_missing)) = 0
   \<and> min_value (compute_metrics (extract_esg cfg_sample co_last_missing)) = 5"
proof -
  have v: "valid_years cfg_sample co_last_missing = [2019]"
    by (simp add: valid_years_def score_at_def years_sample years_2009_2020_def
          entries_sample_none entries_last_missing)
  have s: "score_at cfg_sample co_last_missing 2019 = 5"
    by (simp add: score_at_def entries_last_missing)
  have e: "extract_esg cfg_sample co_last_missing =
      [\<lparr>year = 2019, rating = Text_cell (asc ''AA''), quant = 5\<rparr>,
       \<lparr>year = 2020, rating = Nonfinite_cell, quant = 0\<rparr>]"
    by (simp add: extract_esg_def years_sample years_2009_2020_def entries_sample_none
          entries_last_missing)
  have m: "compute_metrics (extract_esg cfg_sample co_last_missing) =
       \<lparr>avg_value = 5, max_value = 5, min_value = 5, latest_value = 0,
        latest_year = 2020, trend = STABLE\<rparr>"
    by (simp add: e compute_metrics_def quant_values_def trend_of_def Let_def)
  show ?thesis by (simp add: v s m)
qed


subsection \<open>Metrics engine: trend and bounds\<close>

lemma trend_compute: "trend (compute_metrics esg) = trend_of (quant_values esg)"
  by (simp add: compute_metrics_def Let_def trend_of_def quant_values_def)

lemma sorted_hd_Min: "sorted xs \<Longrightarrow> xs \<noteq> [] \<Longrightarrow> hd xs = Min (set xs)"
  by (cases xs) (auto intro!: Min_eqI [symmetric])

lemma sorted_last_Max: "sorted xs \<Longrightarrow> xs \<noteq> [] \<Longrightarrow> last xs = Max (set xs)"
proof (induction xs)
  case Nil
  then show ?case by simp
next
  case (Cons x xs)
  show ?case
  proof (cases "xs = []")
    case True
    then show ?thesis by simp
  next
    case False
    with Cons have "last xs = Max (set xs)" by simp
    moreover have "x \<le> Max (set xs)"
    proof -
      from False have "hd xs \<in> set xs" by simp
      with Cons.prems have "x \<le> hd xs" by auto
      also have "hd xs \<le> Max (set xs)" using \<open>hd xs \<in> set xs\<close> by simp
      finally show ?thesis .
    qed
    ultimately show ?thesis using False by (simp add: max_def)
  qed
qed

lemma valid_years_sorted: "sorted_wrt (<) (years cfg) \<Longrightarrow> sorted (valid_years cfg c)"
  by (simp add: valid_years_def sorted_wrt_filter strict_sorted_imp_sorted)

text \<open>
  C6: with the years in increasing order (as \<open>range(2009, 2021)\<close> gives them), the trend
  compares the score of the latest valid year with the score of the earliest valid year
  when at least three years are valid ("rising" when it is greater, "falling" when it is
  smaller, "stable" otherwise); with fewer than three valid years it is "stable".
\<close>

theorem trend_first_last_valid:
  assumes "sorted_wrt (<) (years cfg)"
  shows "trend (compute_metrics (extract_esg cfg c)) =
     (let vy = valid_years cfg c
      in if 3 \<le> length vy
         then if score_at cfg c (Min (set vy)) < score_at cfg c (Max (set vy)) then RISING
              else if score_at cfg c (Max (set vy)) < score_at cfg c (Min (set vy)) then FALLING
              else STABLE
         else STABLE)"
proof (cases "3 \<le> length (valid_years cfg c)")
  case True
  then have ne: "valid_years cfg c \<noteq> []" by auto
  have s: "sorted (valid_years cfg c)" using assms by (rule valid_years_sorted)
  have h: "hd (quant_values (extract_esg cfg c)) = score_at cfg c (Min (set (valid_years cfg c)))"
    using ne s by (simp add: quant_values_valid_years hd_map sorted_hd_Min)
  have l: "last (quant_values (extract_esg cfg c)) = score_at cfg c (Max (set (valid_years cfg c)))"
    using ne s by (simp add: quant_values_valid_years last_map sorted_last_Max)
  have n: "length (quant_values (extract_esg cfg c)) = length (valid_years cfg c)"
    by (simp add: quant_values_valid_years)
  show ?thesis
    using True by (simp add: trend_compute trend_of_def h l n Let_def)
next
  case False
  then show ?thesis
    by (simp add: trend_compute trend_of_def quant_values_valid_years Let_def)
qed

theorem trend_first_last_valid_witness:
  "sorted_wrt (<) (years cfg_three)
   \<and> valid_years cfg_three pingan = [2018, 2019, 2020]
   \<and> score_at cfg_three pingan 2018 = 4 \<and> score_at cfg_three pingan 2020 = 5
   \<and> trend (compute_metrics (extract_esg cfg_three pingan)) = RISING"
proof -
  have s: "sorted_wrt (<) (years cfg_three)"
    by (simp add: cfg_three_def years_2009_2020_def)
  have sc: "score_at cfg_three pingan 2018 = 4" "score_at cfg_three pingan 2020 = 5"
    by (simp_all add: score_at_def entries_three)
  have "trend (compute_metrics (extract_esg cfg_three pingan)) = RISING"
    using trend_first_last_valid [OF s, of pingan]
    by (simp add: valid_years_three sc)
  with s sc show ?thesis by (simp add: valid_years_three)
qed

lemma fold_max_ge: "(v::nat) \<le> fold max vs v"
  by (induction vs arbitrary: v) (auto intro: order_trans [OF max.cobounded2])

lemma fold_min_ge: "(1::nat) \<le> v \<Longrightarrow> \<forall>x\<in>set vs. 1 \<le> x \<Longrightarrow> 1 \<le> fold min vs v"
  by (induction vs arbitrary: v) auto

lemma length_le_sum_list: "\<forall>x\<in>set (vs::nat list). 1 \<le> x \<Longrightarrow> length vs \<le> sum_list vs"
  by (induction vs) auto

lemma quant_values_pos: "\<forall>v\<in>set (quant_values esg). 1 \<le> v"
  by (auto simp: quant_values_def)

lemma metrics_at_least_one:
  assumes "quant_values esg \<noteq> []"
  shows "1 \<le> avg_value (compute_metrics esg)" "1 \<le> max_value (compute_metrics esg)"
    "1 \<le> min_value (compute_metrics esg)"
proof -
  obtain v vs where q: "quant_values esg = v # vs"
    using assms by (cases "quant_values esg") auto
  have pos: "\<forall>x\<in>set (v # vs). 1 \<le> x"
    using quant_values_pos [of esg] by (simp add: q)
  have ne: "esg \<noteq> []" using assms by (auto simp: quant_values_def)
  have "length (v # vs) \<le> sum_list (v # vs)" using pos by (rule length_le_sum_list)
  then have "(of_nat (length (v # vs)) :: rat) \<le> of_nat (sum_list (v # vs))"
    by (simp only: of_nat_le_iff)
  then show "1 \<le> avg_value (compute_metrics esg)"
    using ne by (simp add: compute_metrics_def Let_def q le_divide_eq)
  have "1 \<le> v" using pos by simp
  also have "v \<le> fold max vs v" by (rule fold_max_ge)
  finally show "1 \<le> max_value (compute_metrics esg)"
    using ne by (simp add: compute_metrics_def Let_def q)
  have "1 \<le> fold min vs v" using pos by (intro fold_min_ge) auto
  then show "1 \<le> min_value (compute_metrics esg)"
    using ne by (simp add: compute_metrics_def Let_def q)
qed

text \<open>
  C9: the scores that enter the aggregates are those of the valid years, in order; a year
  of \<open>years\<close> is valid exactly when its score is not 0; a missing value (NaN, or the
  default 0 of an absent cell) reads as 0, and so does text that is not numeric, that is
  text with a character other than the dot for which \<open>isdigit\<close> is false; and when some
  year is valid, the average, the maximum and the minimum are at least 1.
\<close>

theorem zero_scores_excluded:
  "quant_values (extract_esg cfg c) = map (score_at cfg c) (valid_years cfg c)
   \<and> (y \<in> set (valid_years cfg c) \<longleftrightarrow> y \<in> set (years cfg) \<and> score_at cfg c y \<noteq> 0)
   \<and> parse_quant Nonfinite_cell = 0
   \<and> parse_quant (Int_cell 0) = 0
   \<and> (\<not> list_all py_isdigit (filter (\<lambda>c. c \<noteq> DOT) s) \<longrightarrow> parse_quant (Text_cell s) = 0)
   \<and> (valid_years cfg c \<noteq> [] \<longrightarrow>
        1 \<le> avg_value (compute_metrics (extract_esg cfg c))
        \<and> 1 \<le> max_value (compute_metrics (extract_esg cfg c))
        \<and> 1 \<le> min_value (compute_metrics (extract_esg cfg c)))"
proof -
  have a: "quant_values (extract_esg cfg c) = map (score_at cfg c) (valid_years cfg c)"
    by (rule quant_values_valid_years)
  have b: "y \<in> set (valid_years cfg c) \<longleftrightarrow> y \<in> set (years cfg) \<and> score_at cfg c y \<noteq> 0"
    by (auto simp: valid_years_def)
  have d: "\<not> list_all py_isdigit (filter (\<lambda>c. c \<noteq> DOT) s) \<longrightarrow> parse_quant (Text_cell s) = 0"
    by (simp add: Let_def)
  have e: "valid_years cfg c \<noteq> [] \<longrightarrow>
        1 \<le> avg_value (compute_metrics (extract_esg cfg c))
        \<and> 1 \<le> max_value (compute_metrics (extract_esg cfg c))
        \<and> 1 \<le> min_value (compute_metrics (extract_esg cfg c))"
    using metrics_at_least_one [of "extract_esg cfg c"] by (simp add: a)
  show ?thesis
    using a b d e by (simp only: parse_small simp_thms)
qed

theorem zero_scores_excluded_witness:
  "2009 \<in> set (years cfg_three) \<and> score_at cfg_three pingan 2009 = 0
   \<and> 2009 \<notin> set (valid_years cfg_three pingan)
   \<and> \<not> list_all py_isdigit (filter (\<lambda>c. c \<noteq> DOT) (asc ''N/A''))
   \<and> parse_quant (Text_cell (asc ''N/A'')) = 0
   \<and> valid_years cfg_three pingan \<noteq> []
   \<and> 1 \<le> avg_value (compute_metrics (extract_esg cfg_three pingan))
   \<and> 1 \<le> max_value (compute_metrics (extract_esg cfg_three pingan))
   \<and> 1 \<le> min_value (compute_metrics (extract_esg cfg_three pingan))"
proof -
  have y: "2009 \<in> set (years cfg_three)"
    by (simp add: cfg_three_def years_2009_2020_def)
  have z: "score_at cfg_three pingan 2009 = 0"
    by (simp add: score_at_def entries_three)
  have n: "\<not> list_all py_isdigit (filter (\<lambda>c. c \<noteq> DOT) (asc ''N/A''))"
    by (simp add: py_isdigit_def DIGIT_RANGES_def)
  have v: "valid_years cfg_three pingan \<noteq> []"
    by (simp add: valid_years_three)
  show ?thesis
    using zero_scores_excluded [of cfg_three pingan 2009 "asc ''N/A''"] y z n v
    by blast
qed

lemma no_valid_score_metrics:
  assumes "valid_years cfg c = []"
  shows "avg_value (compute_metrics (extract_esg cfg c)) = 3"
    and "max_value (compute_metrics (extract_esg cfg c)) = 4"
    and "min_value (compute_metrics (extract_esg cfg c)) = 2"
    and "trend (compute_metrics (extract_esg cfg c)) = STABLE"
proof -
  have q: "quant_values (extract_esg cfg c) = []"
    using assms by (simp add: quant_values_valid_years)
  show "avg_value (compute_metrics (extract_esg cfg c)) = 3"
    and "max_value (compute_metrics (extract_esg cfg c)) = 4"
    and "min_value (compute_metrics (extract_esg cfg c)) = 2"
    and "trend (compute_metrics (extract_esg cfg c)) = STABLE"
    by (simp_all add: compute_metrics_def Let_def q trend_of_def)
qed

lemma no_entry_metrics:
  "extract_esg cfg c = [] \<Longrightarrow>
   compute_metrics (extract_esg cfg c) =
     \<lparr>avg_value = 3, max_value = 4, min_value = 2, latest_value = 3,
      latest_year = 2020, trend = STABLE\<rparr>"
  by (simp add: compute_metrics_def)

subsection \<open>Document renderer: the line classifier\<close>

text \<open>
  C10: every line gets one element. A line that is empty once stripped gives a spacer. Any
  other line gives one paragraph of the stripped line, in the heading-2 style when it
  starts with "one" and the enumeration comma or with \<open>1.\<close>, in the heading-3 style when it
  starts with "one" in full-width parentheses or with \<open>2.\<close>, in the list style when it
  starts with a hyphen or a bullet and a space, and in the body style otherwise. The six
  prefixes begin with different characters, so each rule holds whatever the order.
\<close>

theorem line_classifier:
  "(strip raw = [] \<longrightarrow> line_element raw = Spacer 1 8)
   \<and> (startswith (strip raw) [0x4E00, 0x3001] \<or> startswith (strip raw) (asc ''1.'')
        \<longrightarrow> line_element raw = Paragraph (strip raw) H2_style)
   \<and> (startswith (strip raw) [LPAREN, 0x4E00, RPAREN] \<or> startswith (strip raw) (asc ''2.'')
        \<longrightarrow> line_element raw = Paragraph (strip raw) H3_style)
   \<and> (startswith (strip raw) (asc ''- '') \<or> startswith (strip raw) [0x2022, 0x20]
        \<longrightarrow> line_element raw = Paragraph (strip raw) List_style)
   \<and> (strip raw \<noteq> []
        \<and> \<not> startswith (strip raw) [0x4E00, 0x3001] \<and> \<not> startswith (strip raw) (asc ''1.'')
        \<and> \<not> startswith (strip raw) [LPAREN, 0x4E00, RPAREN] \<and> \<not> startswith (strip raw) (asc ''2.'')
        \<and> \<not> startswith (strip raw) (asc ''- '') \<and> \<not> startswith (strip raw) [0x2022, 0x20]
        \<longrightarrow> line_element raw = Paragraph (strip raw) Body_style)
   \<and> (strip raw \<noteq> []
        \<longrightarrow> line_element raw \<in> Paragraph (strip raw) ` {H2_style, H3_style, List_style, Body_style})"
  by (auto simp: line_element_def Let_def startswith_prefix)

theorem line_classifier_witness:
  "strip (asc ''  '') = [] \<and> line_element (asc ''  '') = Spacer 1 8
   \<and> startswith (strip (asc '' 1. plan '')) (asc ''1.'')
   \<and> line_element (asc '' 1. plan '') = Paragraph (asc ''1. plan'') H2_style
   \<and> startswith (strip (asc ''2.1 level'')) (asc ''2.'')
   \<and> line_element (asc ''2.1 level'') = Paragraph (asc ''2.1 level'') H3_style
   \<and> startswith (strip (asc ''- item'')) (asc ''- '')
   \<and> line_element (asc ''- item'') = Paragraph (asc ''- item'') List_style
   \<and> line_element (asc ''text'') = Paragraph (asc ''text'') Body_style"
  using line_classifier [of "asc ''  ''"] line_classifier [of "asc '' 1. plan ''"]
    line_classifier [of "asc ''2.1 level''"] line_classifier [of "asc ''- item''"]
    line_classifier [of "asc ''text''"]
  by (simp add: strip_def is_space_def)

text \<open>
  The sanitizer drops the enumeration comma and the bullet, so within
  \<open>generate_pdf_report\<close> the first and the last prefix never reach the classifier.
\<close>

lemma comma_and_bullet_not_allowed: "\<not> allowed 0x3001 \<and> \<not> allowed 0x2022"
  by (simp add: allowed_def is_space_def)

subsection \<open>Document renderer: the three tiers\<close>

text \<open>
  The styled document ends with the time of the call: unlike the report of
  \<open>generate_esg_analysis\<close>, the document depends on the clock.
\<close>

lemma styled_elements_footer:
  "last (styled_elements stamp analysis_content company_name code)
     = Paragraph (footer_head @ stamp) Body_style"
  by (simp add: styled_elements_def)

text \<open>
  When the library rejects the title of the styled document and the first paragraph of
  the fallback document, both of which hold the company name, the exception of the
  fallback paragraph leaves the function.
\<close>

lemma pdf_report_raises:
  assumes "\<not> para_ok lib (company_name @ asc ''('' @ code @ title_tail)"
    and "\<not> para_ok lib (company_name @ fallback_title_tail)"
  shows "fst (generate_pdf_report lib analysis_content company_name code w) = Inl ValueError"
  using assms
  by (simp add: generate_pdf_report_def styled_render_def styled_elements_def
        fallback_elements_def paragraphs_ok_def Let_def)

lemma lib_markup_rejects:
  "\<not> para_ok lib_markup (asc ''<b>'' @ asc ''('' @ asc ''000001'' @ title_tail)"
  "\<not> para_ok lib_markup (asc ''<b>'' @ fallback_title_tail)"
  by (simp_all add: lib_markup_def title_tail_def fallback_title_tail_def)

text \<open>
  C4 fails on the code. For the company name \<open><b>\<close>, an opening tag that is never closed,
  the title paragraph of the styled document raises, and so does the first paragraph of
  the fallback document, which the handler makes outside its inner \<open>try\<close>:
  \<open>generate_pdf_report\<close> raises \<open>ValueError\<close> and returns no bytes.
\<close>

theorem pdf_report_raises_on_markup:
  "fst (generate_pdf_report lib_markup None (asc ''<b>'') (asc ''000001'') w0) = Inl ValueError"
  by (rule pdf_report_raises [OF lib_markup_rejects])

text \<open>
  What the control flow does guarantee: when the fallback paragraphs can be made, the
  function returns bytes; when moreover both builds fail, the bytes are the fixed ones.
\<close>

lemma pdf_report_returns:
  assumes "paragraphs_ok lib (fallback_elements company_name code)"
  shows "\<exists>b. fst (generate_pdf_report lib analysis_content company_name code w) = Inr b"
  using assms
  by (simp add: generate_pdf_report_def Let_def split: sum.splits)

lemma pdf_report_last_resort:
  assumes "styled_render lib (now w) analysis_content company_name code = Inl e"
    and "paragraphs_ok lib (fallback_elements company_name code)"
    and "build lib Portrait_A4 (fallback_elements company_name code) = Inl e'"
  shows "generate_pdf_report lib analysis_content company_name code w
           = (Inr MINIMAL_PDF, emit (Error_pdf e) w)"
  using assms by (simp add: generate_pdf_report_def Let_def)

text \<open>
  The fixed bytes start with the PDF signature. Their cross-reference table does not
  point at their objects: object 1 starts at offset 9 where the table says 10, and the
  table itself starts at offset 186 where \<open>startxref\<close> says 262.
\<close>

lemma minimal_pdf_signature: "startswith MINIMAL_PDF (asc ''%PDF-'')"
  by (simp add: MINIMAL_PDF_def)

lemma minimal_pdf_length: "length MINIMAL_PDF = 328"
  by (simp add: MINIMAL_PDF_def)

lemma minimal_pdf_offsets:
  "take 7 (drop 9 MINIMAL_PDF) = asc ''1 0 obj''"
  "take 7 (drop 10 MINIMAL_PDF) \<noteq> asc ''1 0 obj''"
  "take 4 (drop 186 MINIMAL_PDF) = asc ''xref''"
  "take 4 (drop 262 MINIMAL_PDF) \<noteq> asc ''xref''"
  by (simp_all add: MINIMAL_PDF_def)

end
